theory Spec2Isabelle
  imports Complex_Main
begin

section \<open>The paged key-value cache allocator of MaxText/page_managers.py\<close>

text \<open>
  The six arrays of a \<^verbatim>\<open>PageState\<close> are modelled by their contents, lists of integers. What
  an operation does to them depends on the kind of array the \<^verbatim>\<open>PageState\<close> holds:
  \<^item> the constructor builds them with \<^verbatim>\<open>jnp.zeros\<close>: JAX arrays, which are immutable. An
    item assignment (\<^verbatim>\<open>page_status[page_idx] = 0\<close>) on such an array raises \<^verbatim>\<open>TypeError\<close>
    and changes nothing;
  \<^item> \<^verbatim>\<open>PageState\<close> is a plain dataclass, so a caller can also pass NumPy arrays, which are
    mutable: there an item assignment updates the caller's array in place.
  The kind of array is the parameter \<open>backing\<close> of the operations. An exception leaves
  the caller's arrays as they are at the moment it is raised: a raise is the value
  \<open>Raised e st\<close>, with \<open>st\<close> the content of the caller's \<^verbatim>\<open>PageState\<close> at that moment.

  An index into a NumPy array is a Python integer: a negative index counts from the end
  and an index out of range raises \<^verbatim>\<open>IndexError\<close>. Reading a JAX array at an integer
  index out of range gives the nearest entry, and raises \<^verbatim>\<open>IndexError\<close> only on an empty
  array.

  \<^verbatim>\<open>jnp.where(cond, size=n)\<close> returns a tuple holding one array: the indices at which
  \<^verbatim>\<open>cond\<close> holds, in ascending order, cut or padded with \<open>0\<close> to length \<open>n\<close>; the indices
  are positions in the array \<^verbatim>\<open>cond\<close> was computed from. \<^verbatim>\<open>jnp.where(cond, size=1)[0]\<close> is
  therefore an array of one element, not an integer.
\<close>

subsection \<open>Data\<close>

datatype error =
    AssertionError string
  | ZeroDivisionError
  | TypeError
  | IndexError
  | UnboundLocalError

datatype backing = Jnp | Numpy

record PageState =
  page_status :: "int list"
  seq_page_idx_mappings :: "int list list"
  seq_lengths :: "int list"
  seq_num_pages :: "int list"
  seq_page_indices :: "int list"
  seq_page_slice_indices :: "int list"

record PageManager =
  num_pages :: int
  page_size :: int
  slots :: int
  max_target_length :: int
  max_prefill_predict_length :: int
  max_pages_per_slot :: int
  max_pages_per_prefill :: int
  page_state :: PageState

datatype 'a outcome = Returned 'a | Raised error PageState

definition and_then :: "'a outcome \<Rightarrow> ('a \<Rightarrow> 'b outcome) \<Rightarrow> 'b outcome" where
  "and_then m f = (case m of Returned x \<Rightarrow> f x | Raised e st \<Rightarrow> Raised e st)"

text \<open>The caller's table after a call, whether the call returned or raised.\<close>

definition table_after :: "PageState outcome \<Rightarrow> PageState" where
  "table_after m = (case m of Returned st \<Rightarrow> st | Raised e st \<Rightarrow> st)"

subsection \<open>Array primitives\<close>

definition py_index :: "nat \<Rightarrow> int \<Rightarrow> nat option" where
  "py_index n i =
     (if 0 \<le> i \<and> i < int n then Some (nat i)
      else if i < 0 \<and> - int n \<le> i then Some (nat (i + int n))
      else None)"

definition py_get :: "'a list \<Rightarrow> int \<Rightarrow> 'a option" where
  "py_get xs i = (case py_index (length xs) i of None \<Rightarrow> None | Some k \<Rightarrow> Some (xs ! k))"

definition py_set :: "'a list \<Rightarrow> int \<Rightarrow> 'a \<Rightarrow> 'a list option" where
  "py_set xs i v = (case py_index (length xs) i of None \<Rightarrow> None | Some k \<Rightarrow> Some (xs[k := v]))"

text \<open>
  Assignment through an index array (\<^verbatim>\<open>page_status[page_idx] = 1\<close> with \<^verbatim>\<open>page_idx\<close> an
  array): every entry named by the array is set, and one index out of range fails the
  whole assignment.
\<close>

primrec py_set_all :: "'a list \<Rightarrow> int list \<Rightarrow> 'a \<Rightarrow> 'a list option" where
  "py_set_all xs [] v = Some xs"
| "py_set_all xs (i # is) v =
     (case py_set xs i v of None \<Rightarrow> None | Some ys \<Rightarrow> py_set_all ys is v)"

text \<open>Reading a JAX array at an integer index.\<close>

definition jnp_get :: "'a list \<Rightarrow> int \<Rightarrow> 'a option" where
  "jnp_get xs i =
     (if xs = [] then None
      else let n = int (length xs); j = (if i < 0 then i + n else i)
           in Some (xs ! nat (max 0 (min (n - 1) j))))"

definition count_nonzero :: "int list \<Rightarrow> int" where
  "count_nonzero xs = int (length (filter (\<lambda>x. x \<noteq> 0) xs))"

definition where_indices :: "('a \<Rightarrow> bool) \<Rightarrow> 'a list \<Rightarrow> int list" where
  "where_indices P xs = map int (filter (\<lambda>i. P (xs ! i)) [0..<length xs])"

definition where_size :: "('a \<Rightarrow> bool) \<Rightarrow> 'a list \<Rightarrow> nat \<Rightarrow> int list" where
  "where_size P xs n = take n (where_indices P xs @ replicate n 0)"

text \<open>
  \<^verbatim>\<open>jnp.ceil(a / b).astype(jnp.int32)\<close>: the quotient is a Python float, which \<^verbatim>\<open>jnp.ceil\<close>
  takes in single precision. \<open>ceil_div\<close> is the exact ceiling, which the computation
  gives when the operands are small enough for no rounding to reach an integer:
  \<open>float32_exact\<close> is the range taken here (it also keeps every value inside \<^verbatim>\<open>int32\<close>). The
  properties below that reach this computation assume \<open>float32_exact\<close> of its operands.
\<close>

definition ceil_div :: "int \<Rightarrow> int \<Rightarrow> int" where
  "ceil_div a b = - ((- a) div b)"

definition float32_exact :: "int \<Rightarrow> int \<Rightarrow> bool" where
  "float32_exact a b \<longleftrightarrow> 0 < b \<and> \<bar>a\<bar> + b \<le> 8388608"

subsection \<open>Construction\<close>

text \<open>
  \<^verbatim>\<open>__init__\<close>: the two assertions (\<^verbatim>\<open>%\<close> raises \<^verbatim>\<open>ZeroDivisionError\<close> for a page size of
  \<open>0\<close>), then \<^verbatim>\<open>jnp.zeros\<close>, which raises \<^verbatim>\<open>TypeError\<close> for a negative dimension. The arrays
  of the \<^verbatim>\<open>page_state\<close> it builds are JAX arrays: the backing of this table is \<open>Jnp\<close>.
\<close>

definition PageManager_init :: "int \<Rightarrow> int \<Rightarrow> int \<Rightarrow> int \<Rightarrow> int \<Rightarrow> error + PageManager" where
  "PageManager_init n_pages p_size n_slots max_target max_prefill =
     (if p_size = 0 then Inl ZeroDivisionError
      else if max_target mod p_size \<noteq> 0 then Inl (AssertionError [])
      else if max_prefill mod p_size \<noteq> 0 then Inl (AssertionError [])
      else if n_pages < 0 \<or> n_slots < 0 \<or> max_target div p_size < 0 then Inl TypeError
      else Inr \<lparr>
        num_pages = n_pages,
        page_size = p_size,
        slots = n_slots,
        max_target_length = max_target,
        max_prefill_predict_length = max_prefill,
        max_pages_per_slot = max_target div p_size,
        max_pages_per_prefill = max_prefill div p_size,
        page_state = \<lparr>
          page_status = replicate (nat n_pages) 0,
          seq_page_idx_mappings = replicate (nat n_slots) (replicate (nat (max_target div p_size)) 0),
          seq_lengths = replicate (nat n_slots) 0,
          seq_num_pages = replicate (nat n_slots) 0,
          seq_page_indices = replicate (nat n_slots) 0,
          seq_page_slice_indices = replicate (nat n_slots) 0 \<rparr> \<rparr>)"

subsection \<open>release_slot_pages\<close>

text \<open>
  On mutable arrays. One pass of the loop body: read entry \<open>i\<close> of the slot's row, clear
  the status of the page found there, then assign \<open>0\<close> to the slot's whole row
  (\<^verbatim>\<open>seq_page_idx_mappings[slot] = 0\<close>).
\<close>

definition release_step :: "int \<Rightarrow> nat \<Rightarrow> PageState \<Rightarrow> PageState outcome" where
  "release_step slot i st =
     (case py_get (seq_page_idx_mappings st) slot of
        None \<Rightarrow> Raised IndexError st
      | Some row \<Rightarrow>
         (case py_get row (int i) of
            None \<Rightarrow> Raised IndexError st
          | Some page_idx \<Rightarrow>
             (case py_set (page_status st) page_idx 0 of
                None \<Rightarrow> Raised IndexError st
              | Some status \<Rightarrow>
                 (case py_set (seq_page_idx_mappings st) slot (replicate (length row) 0) of
                    None \<Rightarrow> Raised IndexError (st\<lparr>page_status := status\<rparr>)
                  | Some mappings \<Rightarrow>
                      Returned (st\<lparr>page_status := status, seq_page_idx_mappings := mappings\<rparr>)))))"

primrec release_loop :: "int \<Rightarrow> nat list \<Rightarrow> PageState \<Rightarrow> PageState outcome" where
  "release_loop slot [] st = Returned st"
| "release_loop slot (i # rest) st = and_then (release_step slot i st) (release_loop slot rest)"

definition store_seq_lengths :: "int \<Rightarrow> int \<Rightarrow> PageState \<Rightarrow> PageState outcome" where
  "store_seq_lengths slot v st =
     (case py_set (seq_lengths st) slot v of
        None \<Rightarrow> Raised IndexError st
      | Some xs \<Rightarrow> Returned (st\<lparr>seq_lengths := xs\<rparr>))"

definition store_seq_num_pages :: "int \<Rightarrow> int \<Rightarrow> PageState \<Rightarrow> PageState outcome" where
  "store_seq_num_pages slot v st =
     (case py_set (seq_num_pages st) slot v of
        None \<Rightarrow> Raised IndexError st
      | Some xs \<Rightarrow> Returned (st\<lparr>seq_num_pages := xs\<rparr>))"

definition store_seq_page_indices :: "int \<Rightarrow> int \<Rightarrow> PageState \<Rightarrow> PageState outcome" where
  "store_seq_page_indices slot v st =
     (case py_set (seq_page_indices st) slot v of
        None \<Rightarrow> Raised IndexError st
      | Some xs \<Rightarrow> Returned (st\<lparr>seq_page_indices := xs\<rparr>))"

definition store_seq_page_slice_indices :: "int \<Rightarrow> int \<Rightarrow> PageState \<Rightarrow> PageState outcome" where
  "store_seq_page_slice_indices slot v st =
     (case py_set (seq_page_slice_indices st) slot v of
        None \<Rightarrow> Raised IndexError st
      | Some xs \<Rightarrow> Returned (st\<lparr>seq_page_slice_indices := xs\<rparr>))"

definition release_slot_pages :: "int \<Rightarrow> PageState \<Rightarrow> PageState outcome" where
  "release_slot_pages slot st =
     (case py_get (seq_num_pages st) slot of
        None \<Rightarrow> Raised IndexError st
      | Some n \<Rightarrow>
          and_then (release_loop slot [0..<nat n] st) (\<lambda>st.
          and_then (store_seq_lengths slot 0 st) (\<lambda>st.
          and_then (store_seq_num_pages slot 0 st) (\<lambda>st.
          and_then (store_seq_page_indices slot 0 st) (\<lambda>st.
          store_seq_page_slice_indices slot 0 st)))))"

text \<open>
  On either kind of array. With JAX arrays the first item assignment raises: line 82 in
  the first pass of the loop, after the reads of lines 80 and 81, or line 85 when the loop
  has no pass.
\<close>

definition release_slot_pages_on :: "backing \<Rightarrow> int \<Rightarrow> PageState \<Rightarrow> PageState outcome" where
  "release_slot_pages_on b slot st =
     (case b of
        Numpy \<Rightarrow> release_slot_pages slot st
      | Jnp \<Rightarrow>
         (case jnp_get (seq_num_pages st) slot of
            None \<Rightarrow> Raised IndexError st
          | Some n \<Rightarrow>
              if 0 < n then
                (case jnp_get (seq_page_idx_mappings st) slot of
                   None \<Rightarrow> Raised IndexError st
                 | Some row \<Rightarrow>
                    (case jnp_get row 0 of
                       None \<Rightarrow> Raised IndexError st
                     | Some page_idx \<Rightarrow> Raised TypeError st))
              else Raised TypeError st))"

subsection \<open>reserve_prefill_slot_pages\<close>

text \<open>
  The assertion of the allocation loop,
  \<^verbatim>\<open>jnp.count_nonzero(page_status[1:]) != self.num_pages-1\<close>, and the index array the loop
  takes, \<^verbatim>\<open>jnp.where((page_status[1:]==0), size=1)[0]\<close>: one position in the slice
  \<^verbatim>\<open>page_status[1:]\<close>, used as it is to index \<^verbatim>\<open>page_status\<close>.
\<close>

definition pages_available :: "PageManager \<Rightarrow> PageState \<Rightarrow> bool" where
  "pages_available pm st \<longleftrightarrow> count_nonzero (drop 1 (page_status st)) \<noteq> num_pages pm - 1"

definition free_page_idx :: "PageState \<Rightarrow> int list" where
  "free_page_idx st = where_size (\<lambda>x. x = 0) (drop 1 (page_status st)) 1"

definition all_pages_in_use :: error where
  "all_pages_in_use = AssertionError ''All pages are in use.''"

text \<open>Line 117, \<^verbatim>\<open>page_status[page_idx] = 1\<close>, with the index array.\<close>

definition store_page_status :: "int list \<Rightarrow> int \<Rightarrow> PageState \<Rightarrow> PageState outcome" where
  "store_page_status page_idx v st =
     (case py_set_all (page_status st) page_idx v of
        None \<Rightarrow> Raised IndexError st
      | Some xs \<Rightarrow> Returned (st\<lparr>page_status := xs\<rparr>))"

text \<open>
  Line 118, \<^verbatim>\<open>seq_page_idx_mappings[slot][i] = page_idx\<close>: the row and the entry are found,
  and the assignment of an array to the one entry raises \<^verbatim>\<open>TypeError\<close>. Line 122,
  \<^verbatim>\<open>seq_page_indices[slot] = page_idx\<close>, is the same assignment into another array.
\<close>

definition store_mapping :: "int \<Rightarrow> int \<Rightarrow> int list \<Rightarrow> PageState \<Rightarrow> PageState outcome" where
  "store_mapping slot i page_idx st =
     (case py_get (seq_page_idx_mappings st) slot of
        None \<Rightarrow> Raised IndexError st
      | Some row \<Rightarrow>
         (case py_index (length row) i of
            None \<Rightarrow> Raised IndexError st
          | Some c \<Rightarrow> Raised TypeError st))"

definition store_seq_page_indices_array :: "int \<Rightarrow> int list \<Rightarrow> PageState \<Rightarrow> PageState outcome" where
  "store_seq_page_indices_array slot page_idx st =
     (case py_index (length (seq_page_indices st)) slot of
        None \<Rightarrow> Raised IndexError st
      | Some k \<Rightarrow> Raised TypeError st)"

text \<open>
  The state of the prefill loop is the arrays and the local variable \<^verbatim>\<open>page_idx\<close>, which
  is unbound (\<open>None\<close>) until the body has run once.
\<close>

definition prefill_step ::
  "PageManager \<Rightarrow> int \<Rightarrow> nat \<Rightarrow> PageState \<Rightarrow> (PageState \<times> int list option) outcome" where
  "prefill_step pm slot i st =
     (if \<not> pages_available pm st then Raised all_pages_in_use st
      else
        let page_idx = free_page_idx st in
        and_then (store_page_status page_idx 1 st) (\<lambda>st.
        and_then (store_mapping slot (int i) page_idx st) (\<lambda>st.
        Returned (st, Some page_idx))))"

primrec prefill_loop ::
  "PageManager \<Rightarrow> int \<Rightarrow> nat list \<Rightarrow> PageState \<times> int list option
     \<Rightarrow> (PageState \<times> int list option) outcome"
  where
  "prefill_loop pm slot [] acc = Returned acc"
| "prefill_loop pm slot (i # rest) acc =
     and_then (prefill_step pm slot i (fst acc)) (prefill_loop pm slot rest)"

definition reserve_prefill_slot_pages ::
  "PageManager \<Rightarrow> backing \<Rightarrow> int \<Rightarrow> int \<Rightarrow> PageState \<Rightarrow> PageState outcome" where
  "reserve_prefill_slot_pages pm b slot true_length st0 =
     and_then (release_slot_pages_on b slot st0) (\<lambda>st.
       if page_size pm = 0 then Raised ZeroDivisionError st
       else
         let prefill_slot_num_pages = ceil_div true_length (page_size pm);
             prefill_slot_page_slice_idx = (true_length - 1) mod page_size pm
         in
         and_then (prefill_loop pm slot [0..<nat prefill_slot_num_pages] (st, None)) (\<lambda>(st, page_idx).
         and_then (store_seq_lengths slot true_length st) (\<lambda>st.
         and_then (store_seq_num_pages slot prefill_slot_num_pages st) (\<lambda>st.
           case page_idx of
             None \<Rightarrow> Raised UnboundLocalError st
           | Some p \<Rightarrow>
               and_then (store_seq_page_indices_array slot p st) (\<lambda>st.
               store_seq_page_slice_indices slot prefill_slot_page_slice_idx st)))))"

subsection \<open>reserve_decode_step_pages\<close>

text \<open>
  The first statement of the body, line 144, is
  \<^verbatim>\<open>seq_lengths += jax.lax.cond(seq_lengths > 0, 1, 0)\<close>. \<^verbatim>\<open>jax.lax.cond\<close> takes two
  functions as its branches; given the integers \<open>1\<close> and \<open>0\<close> it raises \<^verbatim>\<open>TypeError\<close>, for
  every \<^verbatim>\<open>seq_lengths\<close> and before \<^verbatim>\<open>+=\<close> assigns. No later line of the body runs, and no
  array is changed.
\<close>

definition reserve_decode_step_pages :: "PageManager \<Rightarrow> PageState \<Rightarrow> PageState outcome" where
  "reserve_decode_step_pages pm st = Raised TypeError st"

subsection \<open>Tables reachable through the three operations\<close>

text \<open>
  The tables a caller can hold after a sequence of calls on a table \<open>T0\<close> of backing \<open>b\<close>.
  Each call leaves the table \<open>table_after\<close>: the returned table, or the caller's arrays as
  the raise left them. A prefill on mutable arrays reaches the ceiling computation, so
  its length is taken in the \<open>float32_exact\<close> range.
\<close>

inductive reachable_from :: "PageManager \<Rightarrow> backing \<Rightarrow> PageState \<Rightarrow> PageState \<Rightarrow> bool"
  for pm :: PageManager and b :: backing and T0 :: PageState where
  start: "reachable_from pm b T0 T0"
| release: "reachable_from pm b T0 T \<Longrightarrow>
     reachable_from pm b T0 (table_after (release_slot_pages_on b slot T))"
| prefill: "reachable_from pm b T0 T \<Longrightarrow> b = Jnp \<or> float32_exact true_length (page_size pm) \<Longrightarrow>
     reachable_from pm b T0 (table_after (reserve_prefill_slot_pages pm b slot true_length T))"
| decode: "reachable_from pm b T0 T \<Longrightarrow>
     reachable_from pm b T0 (table_after (reserve_decode_step_pages pm T))"

subsection \<open>Notions used to state the properties\<close>

text \<open>
  No page other than the sentinel in the rows of two slots; rows that were cleared or
  left as they were; the relation between \<^verbatim>\<open>seq_num_pages\<close> and \<^verbatim>\<open>seq_lengths\<close>, for
  per-slot arrays of \<^verbatim>\<open>slots\<close> entries; a table with no free page above the sentinel.
\<close>

definition no_double_ownership :: "PageState \<Rightarrow> bool" where
  "no_double_ownership st \<longleftrightarrow>
     (\<forall>s1\<in>set [0..<length (seq_page_idx_mappings st)].
      \<forall>s2\<in>set [0..<length (seq_page_idx_mappings st)].
        s1 \<noteq> s2 \<longrightarrow>
        set (seq_page_idx_mappings st ! s1) \<inter> set (seq_page_idx_mappings st ! s2) \<subseteq> {0})"

definition rows_cleared :: "int list list \<Rightarrow> int list list \<Rightarrow> bool" where
  "rows_cleared before after \<longleftrightarrow>
     list_all2 (\<lambda>r r'. r' = r \<or> (\<forall>x\<in>set r'. x = 0)) before after"

definition num_pages_match_lengths :: "PageManager \<Rightarrow> PageState \<Rightarrow> bool" where
  "num_pages_match_lengths pm st \<longleftrightarrow>
     length (seq_lengths st) = nat (slots pm) \<and>
     seq_num_pages st = map (\<lambda>l. ceil_div l (page_size pm)) (seq_lengths st)"


text \<open>
  The first pass of the allocation loop of a prefill, as the outcome of the call: the pass
  never completes, so this is where every prefill that needs a page ends.
\<close>

definition first_pass :: "PageManager \<Rightarrow> int \<Rightarrow> PageState \<Rightarrow> PageState outcome" where
  "first_pass pm slot st = and_then (prefill_step pm slot 0 st) (\<lambda>acc. Returned (fst acc))"

text \<open>
  Two relations between the table before a step and the table after it: the rows were
  cleared or left, and the lengths and page counts were left.
\<close>

definition rows_step :: "PageState \<Rightarrow> PageState \<Rightarrow> bool" where
  "rows_step a b \<longleftrightarrow> rows_cleared (seq_page_idx_mappings a) (seq_page_idx_mappings b)"

definition counters_kept :: "PageState \<Rightarrow> PageState \<Rightarrow> bool" where
  "counters_kept a b \<longleftrightarrow> seq_lengths b = seq_lengths a \<and> seq_num_pages b = seq_num_pages a"

subsection \<open>Concrete tables\<close>

text \<open>The manager of the scenarios: 5 pages of 4 tokens, 2 slots, 2 pages per slot.\<close>

definition scenario_A :: PageManager where
  "scenario_A = \<lparr>
     num_pages = 5, page_size = 4, slots = 2,
     max_target_length = 8, max_prefill_predict_length = 8,
     max_pages_per_slot = 2, max_pages_per_prefill = 2,
     page_state = \<lparr>
       page_status = [0, 0, 0, 0, 0],
       seq_page_idx_mappings = [[0, 0], [0, 0]],
       seq_lengths = [0, 0],
       seq_num_pages = [0, 0],
       seq_page_indices = [0, 0],
       seq_page_slice_indices = [0, 0] \<rparr> \<rparr>"

text \<open>The zeroed table with the status of the sentinel set.\<close>

definition table_sentinel_marked :: PageState where
  "table_sentinel_marked = \<lparr>
     page_status = [1, 0, 0, 0, 0],
     seq_page_idx_mappings = [[0, 0], [0, 0]],
     seq_lengths = [0, 0],
     seq_num_pages = [0, 0],
     seq_page_indices = [0, 0],
     seq_page_slice_indices = [0, 0] \<rparr>"

text \<open>Slot 0 holds 5 tokens on the pages 1 and 2.\<close>

definition table_two_pages :: PageState where
  "table_two_pages = \<lparr>
     page_status = [0, 1, 1, 0, 0],
     seq_page_idx_mappings = [[1, 2], [0, 0]],
     seq_lengths = [5, 0],
     seq_num_pages = [2, 0],
     seq_page_indices = [2, 0],
     seq_page_slice_indices = [0, 0] \<rparr>"

text \<open>The same, with the status of the sentinel set as the allocation loops set it.\<close>

definition table_two_pages_sentinel_set :: PageState where
  "table_two_pages_sentinel_set = \<lparr>
     page_status = [1, 1, 1, 0, 0],
     seq_page_idx_mappings = [[1, 2], [0, 0]],
     seq_lengths = [5, 0],
     seq_num_pages = [2, 0],
     seq_page_indices = [2, 0],
     seq_page_slice_indices = [0, 0] \<rparr>"

text \<open>Slot 0 holds 4 tokens on page 1: its next token needs a second page.\<close>

definition table_one_full_page :: PageState where
  "table_one_full_page = \<lparr>
     page_status = [0, 1, 0, 0, 0],
     seq_page_idx_mappings = [[1, 0], [0, 0]],
     seq_lengths = [4, 0],
     seq_num_pages = [1, 0],
     seq_page_indices = [1, 0],
     seq_page_slice_indices = [3, 0] \<rparr>"

text \<open>
  Slot 0 holds 5 tokens on the pages 1 and 2, slot 1 holds 3 tokens on page 3; the table
  after the release of slot 0 on mutable arrays; and that table after a prefill of slot 0
  has failed in its first pass.
\<close>

definition table_three_pages :: PageState where
  "table_three_pages = \<lparr>
     page_status = [0, 1, 1, 1, 0],
     seq_page_idx_mappings = [[1, 2], [3, 0]],
     seq_lengths = [5, 3],
     seq_num_pages = [2, 1],
     seq_page_indices = [2, 3],
     seq_page_slice_indices = [0, 2] \<rparr>"

definition table_slot_0_released :: PageState where
  "table_slot_0_released = \<lparr>
     page_status = [0, 0, 1, 1, 0],
     seq_page_idx_mappings = [[0, 0], [3, 0]],
     seq_lengths = [0, 3],
     seq_num_pages = [0, 1],
     seq_page_indices = [0, 3],
     seq_page_slice_indices = [0, 2] \<rparr>"

definition table_failed_prefill :: PageState where
  "table_failed_prefill = \<lparr>
     page_status = [1, 0, 1, 1, 0],
     seq_page_idx_mappings = [[0, 0], [3, 0]],
     seq_lengths = [0, 3],
     seq_num_pages = [0, 1],
     seq_page_indices = [0, 3],
     seq_page_slice_indices = [0, 2] \<rparr>"






text \<open>
  A pool whose only page is the sentinel, and its zeroed table after a prefill of slot 0
  with the length \<open>-5\<close> has stopped on the unbound \<^verbatim>\<open>page_idx\<close>.
\<close>

definition scenario_one_page :: PageManager where
  "scenario_one_page = \<lparr>
     num_pages = 1, page_size = 4, slots = 2,
     max_target_length = 8, max_prefill_predict_length = 8,
     max_pages_per_slot = 2, max_pages_per_prefill = 2,
     page_state = \<lparr>
       page_status = [0],
       seq_page_idx_mappings = [[0, 0], [0, 0]],
       seq_lengths = [0, 0],
       seq_num_pages = [0, 0],
       seq_page_indices = [0, 0],
       seq_page_slice_indices = [0, 0] \<rparr> \<rparr>"

definition table_negative_length :: PageState where
  "table_negative_length = \<lparr>
     page_status = [0],
     seq_page_idx_mappings = [[0, 0], [0, 0]],
     seq_lengths = [- 5, 0],
     seq_num_pages = [- 1, 0],
     seq_page_indices = [0, 0],
     seq_page_slice_indices = [0, 0] \<rparr>"

section \<open>Properties\<close>

subsection \<open>Basic facts about the primitives\<close>

lemma and_then_Returned:
  "and_then m f = Returned y \<longleftrightarrow> (\<exists>x. m = Returned x \<and> f x = Returned y)"
  by (cases m) (simp_all add: and_then_def)

lemma and_then_simps [simp]:
  "and_then (Returned x) f = f x"
  "and_then (Raised e st) f = Raised e st"
  by (simp_all add: and_then_def)

lemma py_index_nat: "py_index n (int i) = (if i < n then Some i else None)"
  by (simp add: py_index_def)





lemma release_step_Returned:
  "release_step slot i st = Returned st' \<longleftrightarrow>
     (\<exists>k p. py_index (length (seq_page_idx_mappings st)) slot = Some k \<and>
            i < length (seq_page_idx_mappings st ! k) \<and>
            py_index (length (page_status st)) (seq_page_idx_mappings st ! k ! i) = Some p \<and>
            st' = st\<lparr>page_status := (page_status st)[p := 0],
                    seq_page_idx_mappings := (seq_page_idx_mappings st)
                      [k := replicate (length (seq_page_idx_mappings st ! k)) 0]\<rparr>)"
  by (auto simp: release_step_def py_set_def py_get_def py_index_nat split: option.splits if_splits)

lemma table_after_simps [simp]:
  "table_after (Returned st) = st"
  "table_after (Raised e st) = st"
  by (simp_all add: table_after_def)

text \<open>
  A relation between the table before a call and the table after it passes through a
  sequence of steps, whichever step raises.
\<close>

lemma table_after_and_then:
  assumes trans: "\<And>a b c. R a b \<Longrightarrow> R b c \<Longrightarrow> R a c"
    and m: "R st (table_after m)"
    and g: "\<And>x. m = Returned x \<Longrightarrow> R x (table_after (g x))"
  shows "R st (table_after (and_then m g))"
proof (cases m)
  case (Returned x)
  with m have "R st x" by simp
  moreover from Returned have "R x (table_after (g x))" by (rule g)
  ultimately have "R st (table_after (g x))" by (rule trans)
  with Returned show ?thesis by simp
next
  case (Raised e s)
  with m show ?thesis by simp
qed

lemma no_double_ownership_iff:
  "no_double_ownership st \<longleftrightarrow>
     (\<forall>s1<length (seq_page_idx_mappings st). \<forall>s2<length (seq_page_idx_mappings st).
        s1 \<noteq> s2 \<longrightarrow>
        set (seq_page_idx_mappings st ! s1) \<inter> set (seq_page_idx_mappings st ! s2) \<subseteq> {0})"
  by (simp add: no_double_ownership_def Ball_def)

lemma ceil_div_ceiling:
  "b \<noteq> 0 \<Longrightarrow> ceil_div a b = \<lceil>real_of_int a / real_of_int b\<rceil>"
proof -
  have "\<lfloor>real_of_int (- a) / real_of_int b\<rfloor> = (- a) div b"
    by (rule floor_divide_of_int_eq)
  then show ?thesis by (simp add: ceil_div_def ceiling_def)
qed


lemma scenario_A_init: "PageManager_init 5 4 2 8 8 = Inr scenario_A"
  by (simp add: PageManager_init_def scenario_A_def numeral_eq_Suc)



lemma scenario_one_page_init: "PageManager_init 1 4 2 8 8 = Inr scenario_one_page"
  by (simp add: PageManager_init_def scenario_one_page_def numeral_eq_Suc)

subsection \<open>No prefill returns\<close>

text \<open>
  Line 118 assigns the index array to one entry of the row, which raises: the first pass of
  the allocation loop never completes.
\<close>

lemma store_mapping_Raised:
  "\<exists>e. store_mapping slot i page_idx st = Raised e st"
  by (auto simp: store_mapping_def split: option.splits)

lemma store_mapping_not_Returned [simp]: "store_mapping slot i page_idx st \<noteq> Returned st'"
  using store_mapping_Raised [of slot i page_idx st] by auto

lemma prefill_step_not_Returned [simp]: "prefill_step pm slot i st \<noteq> Returned acc"
  by (auto simp: prefill_step_def Let_def and_then_Returned)

lemma prefill_step_Raised:
  "\<exists>e s. prefill_step pm slot i st = Raised e s"
  by (cases "prefill_step pm slot i st") auto

lemma first_pass_not_Returned [simp]: "first_pass pm slot st \<noteq> Returned st'"
  using prefill_step_Raised [of pm slot 0 st] by (auto simp: first_pass_def)

lemma release_slot_pages_on_Jnp:
  "\<exists>e. release_slot_pages_on Jnp slot st = Raised e st"
  by (auto simp: release_slot_pages_on_def split: option.splits)

text \<open>A prefill that needs a page ends in the first pass of its loop.\<close>

lemma reserve_prefill_needs_page:
  assumes "page_size pm \<noteq> 0" "0 < ceil_div true_length (page_size pm)"
  shows "reserve_prefill_slot_pages pm b slot true_length T =
         and_then (release_slot_pages_on b slot T) (first_pass pm slot)"
proof -
  from assms(2) have upt: "[0..<nat (ceil_div true_length (page_size pm))] =
      0 # [1..<nat (ceil_div true_length (page_size pm))]"
    by (simp add: upt_conv_Cons)
  show ?thesis
  proof (cases "release_slot_pages_on b slot T")
    case (Returned st)
    obtain e s where s: "prefill_step pm slot 0 st = Raised e s"
      using prefill_step_Raised by blast
    with Returned assms(1) show ?thesis
      by (simp add: reserve_prefill_slot_pages_def Let_def upt first_pass_def)
  next
    case (Raised e s)
    then show ?thesis by (simp add: reserve_prefill_slot_pages_def)
  qed
qed

text \<open>A prefill that needs no page writes the length and the page count, and stops.\<close>

lemma reserve_prefill_needs_no_page:
  assumes "page_size pm \<noteq> 0" "ceil_div true_length (page_size pm) \<le> 0"
  shows "reserve_prefill_slot_pages pm b slot true_length T =
         and_then (release_slot_pages_on b slot T) (\<lambda>st.
         and_then (store_seq_lengths slot true_length st) (\<lambda>st.
         and_then (store_seq_num_pages slot (ceil_div true_length (page_size pm)) st) (\<lambda>st.
         Raised UnboundLocalError st)))"
proof -
  from assms(2) have "nat (ceil_div true_length (page_size pm)) = 0" by simp
  with assms(1) show ?thesis
    unfolding reserve_prefill_slot_pages_def Let_def
    by (simp cong: if_cong)
qed

text \<open>So no call of \<^verbatim>\<open>reserve_prefill_slot_pages\<close> returns a table, on either kind of array.\<close>

lemma reserve_prefill_never_returns:
  "reserve_prefill_slot_pages pm b slot true_length T \<noteq> Returned T'"
proof (cases "page_size pm = 0")
  case True
  then show ?thesis
    by (auto simp: reserve_prefill_slot_pages_def and_then_Returned)
next
  case False
  show ?thesis
  proof (cases "0 < ceil_div true_length (page_size pm)")
    case True
    with False show ?thesis
      by (simp add: reserve_prefill_needs_page and_then_Returned)
  next
    case False
    with \<open>page_size pm \<noteq> 0\<close> show ?thesis
      by (simp add: reserve_prefill_needs_no_page and_then_Returned)
  qed
qed


subsection \<open>Calls on the concrete tables\<close>

lemma release_three_pages:
  "release_slot_pages_on Numpy 0 table_three_pages = Returned table_slot_0_released"
  by code_simp

lemma prefill_after_release:
  "reserve_prefill_slot_pages scenario_A Numpy 0 3 table_slot_0_released =
     Raised TypeError table_failed_prefill"
  by code_simp

lemma table_failed_prefill_reachable:
  "reachable_from scenario_A Numpy table_three_pages table_failed_prefill"
proof -
  have "reachable_from scenario_A Numpy table_three_pages
      (table_after (release_slot_pages_on Numpy 0 table_three_pages))"
    by (intro reachable_from.release reachable_from.start)
  then have r: "reachable_from scenario_A Numpy table_three_pages table_slot_0_released"
    by (simp only: release_three_pages table_after_simps)
  have "float32_exact 3 (page_size scenario_A)"
    by (simp add: float32_exact_def scenario_A_def)
  with r have "reachable_from scenario_A Numpy table_three_pages
      (table_after (reserve_prefill_slot_pages scenario_A Numpy 0 3 table_slot_0_released))"
    by (intro reachable_from.prefill disjI2)
  then show ?thesis by (simp only: prefill_after_release table_after_simps)
qed

lemma prefill_zeroed_Jnp:
  "reserve_prefill_slot_pages scenario_A Jnp 0 5 (page_state scenario_A) =
     Raised TypeError (page_state scenario_A)"
  by code_simp

lemma table_negative_length_prefill:
  "reserve_prefill_slot_pages scenario_one_page Numpy 0 (- 5) (page_state scenario_one_page) =
     Raised UnboundLocalError table_negative_length"
  by code_simp

lemma table_negative_length_reachable:
  "reachable_from scenario_one_page Numpy (page_state scenario_one_page) table_negative_length"
proof -
  have "float32_exact (- 5) (page_size scenario_one_page)"
    by (simp add: float32_exact_def scenario_one_page_def)
  then have "reachable_from scenario_one_page Numpy (page_state scenario_one_page)
      (table_after (reserve_prefill_slot_pages scenario_one_page Numpy 0 (- 5)
         (page_state scenario_one_page)))"
    by (intro reachable_from.prefill reachable_from.start disjI2)
  then show ?thesis by (simp add: table_negative_length_prefill)
qed


subsection \<open>Rows are only ever cleared\<close>

lemma rows_cleared_iff:
  "rows_cleared M M' \<longleftrightarrow>
     length M' = length M \<and>
     (\<forall>k<length M. M' ! k = M ! k \<or> (\<forall>x\<in>set (M' ! k). x = 0))"
  by (auto simp: rows_cleared_def list_all2_conv_all_nth)

lemma rows_cleared_refl [simp]: "rows_cleared M M"
  by (simp add: rows_cleared_iff)

lemma rows_cleared_trans: "rows_cleared M M' \<Longrightarrow> rows_cleared M' M'' \<Longrightarrow> rows_cleared M M''"
  unfolding rows_cleared_iff by (metis (no_types, lifting))

lemma rows_cleared_update: "rows_cleared M (M[k := replicate n 0])"
  by (cases "k < length M") (auto simp: rows_cleared_iff nth_list_update)

lemma rows_cleared_no_double_ownership:
  assumes "no_double_ownership st"
    and "rows_cleared (seq_page_idx_mappings st) (seq_page_idx_mappings st')"
  shows "no_double_ownership st'"
  unfolding no_double_ownership_iff
proof (intro allI impI)
  fix s1 s2
  assume s: "s1 < length (seq_page_idx_mappings st')" "s2 < length (seq_page_idx_mappings st')"
    "s1 \<noteq> s2"
  let ?M = "seq_page_idx_mappings st" and ?M' = "seq_page_idx_mappings st'"
  from assms(2) have len: "length ?M' = length ?M"
    and rows: "\<And>k. k < length ?M \<Longrightarrow> ?M' ! k = ?M ! k \<or> (\<forall>x\<in>set (?M' ! k). x = 0)"
    by (simp_all add: rows_cleared_iff)
  from s len assms(1) have old: "set (?M ! s1) \<inter> set (?M ! s2) \<subseteq> {0}"
    by (simp add: no_double_ownership_iff)
  from s len rows [of s1] rows [of s2] old
  show "set (?M' ! s1) \<inter> set (?M' ! s2) \<subseteq> {0}" by auto
qed

text \<open>The steps of the operations clear rows or leave them.\<close>

lemma rows_step_refl [simp]: "rows_step a a"
  by (simp add: rows_step_def)

lemma rows_step_trans: "rows_step a b \<Longrightarrow> rows_step b c \<Longrightarrow> rows_step a c"
  unfolding rows_step_def by (rule rows_cleared_trans)

lemma rows_step_same: "seq_page_idx_mappings b = seq_page_idx_mappings a \<Longrightarrow> rows_step a b"
  by (simp add: rows_step_def)

lemma release_step_Raised:
  assumes "release_step slot i st = Raised e s"
  shows "seq_page_idx_mappings s = seq_page_idx_mappings st"
proof (cases "py_get (seq_page_idx_mappings st) slot")
  case None
  with assms show ?thesis by (simp add: release_step_def)
next
  case row: (Some row)
  show ?thesis
  proof (cases "py_get row (int i)")
    case None
    with assms row show ?thesis by (simp add: release_step_def)
  next
    case idx: (Some page_idx)
    show ?thesis
    proof (cases "py_set (page_status st) page_idx 0")
      case None
      with assms row idx show ?thesis by (simp add: release_step_def)
    next
      case status: (Some status)
      show ?thesis
      proof (cases "py_set (seq_page_idx_mappings st) slot (replicate (length row) 0)")
        case None
        with assms row idx status show ?thesis by (auto simp: release_step_def)
      next
        case (Some mappings)
        with assms row idx status show ?thesis by (simp add: release_step_def)
      qed
    qed
  qed
qed

lemma release_step_rows: "rows_step st (table_after (release_step slot i st))"
proof (cases "release_step slot i st")
  case (Returned st')
  from Returned [unfolded release_step_Returned] obtain k p where
    "st' = st\<lparr>page_status := (page_status st)[p := 0],
               seq_page_idx_mappings := (seq_page_idx_mappings st)
                 [k := replicate (length (seq_page_idx_mappings st ! k)) 0]\<rparr>"
    by blast
  with Returned show ?thesis by (simp add: rows_step_def rows_cleared_update)
next
  case (Raised e s)
  then have "seq_page_idx_mappings s = seq_page_idx_mappings st" by (rule release_step_Raised)
  with Raised show ?thesis by (simp add: rows_step_same)
qed

lemma rows_and_then:
  assumes "rows_step st (table_after m)"
    and "\<And>x. m = Returned x \<Longrightarrow> rows_step x (table_after (g x))"
  shows "rows_step st (table_after (and_then m g))"
proof (rule table_after_and_then [where R = rows_step])
  show "\<And>a b c. rows_step a b \<Longrightarrow> rows_step b c \<Longrightarrow> rows_step a c"
    by (rule rows_step_trans)
qed (use assms in auto)

lemma release_loop_rows: "rows_step st (table_after (release_loop slot is st))"
proof (induction "is" arbitrary: st)
  case Nil
  show ?case by simp
next
  case (Cons i rest)
  show ?case
    unfolding release_loop.simps
    by (rule rows_and_then [OF release_step_rows Cons.IH])
qed

lemma store_seq_lengths_rows: "rows_step st (table_after (store_seq_lengths slot v st))"
  by (auto simp: store_seq_lengths_def rows_step_def split: option.splits)

lemma store_seq_num_pages_rows: "rows_step st (table_after (store_seq_num_pages slot v st))"
  by (auto simp: store_seq_num_pages_def rows_step_def split: option.splits)

lemma store_seq_page_indices_rows: "rows_step st (table_after (store_seq_page_indices slot v st))"
  by (auto simp: store_seq_page_indices_def rows_step_def split: option.splits)

lemma store_seq_page_slice_indices_rows:
  "rows_step st (table_after (store_seq_page_slice_indices slot v st))"
  by (auto simp: store_seq_page_slice_indices_def rows_step_def split: option.splits)

lemma release_slot_pages_rows: "rows_step st (table_after (release_slot_pages slot st))"
proof (cases "py_get (seq_num_pages st) slot")
  case None
  then show ?thesis by (simp add: release_slot_pages_def)
next
  case (Some n)
  have "rows_step st (table_after
      (and_then (release_loop slot [0..<nat n] st) (\<lambda>st.
       and_then (store_seq_lengths slot 0 st) (\<lambda>st.
       and_then (store_seq_num_pages slot 0 st) (\<lambda>st.
       and_then (store_seq_page_indices slot 0 st) (\<lambda>st.
       store_seq_page_slice_indices slot 0 st))))))"
    by (intro rows_and_then release_loop_rows
        store_seq_lengths_rows store_seq_num_pages_rows store_seq_page_indices_rows
        store_seq_page_slice_indices_rows)
  with Some show ?thesis by (simp add: release_slot_pages_def)
qed

lemma release_slot_pages_on_rows: "rows_step st (table_after (release_slot_pages_on b slot st))"
proof (cases b)
  case Jnp
  with release_slot_pages_on_Jnp [of slot st] show ?thesis by auto
next
  case Numpy
  with release_slot_pages_rows show ?thesis by (simp add: release_slot_pages_on_def)
qed

lemma store_page_status_rows: "rows_step st (table_after (store_page_status idx v st))"
  by (auto simp: store_page_status_def rows_step_def split: option.splits)

lemma store_mapping_rows: "rows_step st (table_after (store_mapping slot i idx st))"
  using store_mapping_Raised [of slot i idx st] by auto

lemma first_pass_rows: "rows_step st (table_after (first_pass pm slot st))"
proof (cases "pages_available pm st")
  case False
  then show ?thesis by (simp add: first_pass_def prefill_step_def)
next
  case True
  have "rows_step st (table_after
      (and_then (store_page_status (free_page_idx st) 1 st)
         (\<lambda>st'. store_mapping slot 0 (free_page_idx st) st')))"
    by (intro rows_and_then store_page_status_rows
        store_mapping_rows)
  moreover have "first_pass pm slot st =
      and_then (store_page_status (free_page_idx st) 1 st)
         (\<lambda>st'. store_mapping slot 0 (free_page_idx st) st')"
  proof (cases "store_page_status (free_page_idx st) 1 st")
    case (Returned st')
    obtain e where "store_mapping slot 0 (free_page_idx st) st' = Raised e st'"
      using store_mapping_Raised by blast
    with Returned True show ?thesis by (simp add: first_pass_def prefill_step_def)
  next
    case (Raised e s)
    with True show ?thesis by (simp add: first_pass_def prefill_step_def)
  qed
  ultimately show ?thesis by simp
qed

lemma reserve_prefill_rows:
  "rows_step st (table_after (reserve_prefill_slot_pages pm b slot true_length st))"
proof (cases "page_size pm = 0")
  case True
  have "rows_step st (table_after
      (and_then (release_slot_pages_on b slot st) (\<lambda>st. Raised ZeroDivisionError st)))"
    by (intro rows_and_then
        release_slot_pages_on_rows) simp
  with True show ?thesis by (simp add: reserve_prefill_slot_pages_def)
next
  case ps: False
  show ?thesis
  proof (cases "0 < ceil_div true_length (page_size pm)")
    case True
    show ?thesis
      unfolding reserve_prefill_needs_page [OF ps True]
      by (intro rows_and_then
          release_slot_pages_on_rows first_pass_rows)
  next
    case False
    then have le: "ceil_div true_length (page_size pm) \<le> 0" by simp
    show ?thesis
      unfolding reserve_prefill_needs_no_page [OF ps le]
      by (intro rows_and_then
          release_slot_pages_on_rows store_seq_lengths_rows store_seq_num_pages_rows) simp
  qed
qed

lemma reachable_from_rows:
  "reachable_from pm b T0 T \<Longrightarrow> rows_step T0 T"
proof (induction rule: reachable_from.induct)
  case start
  show ?case by simp
next
  case (release T slot)
  from release.IH release_slot_pages_on_rows show ?case by (rule rows_step_trans)
next
  case (prefill T true_length slot)
  from prefill.IH reserve_prefill_rows show ?case by (rule rows_step_trans)
next
  case (decode T)
  then show ?case by (simp add: reserve_decode_step_pages_def)
qed

lemma init_no_double_ownership:
  "PageManager_init n ps s mt mp = Inr pm \<Longrightarrow> no_double_ownership (page_state pm)"
  by (auto simp: PageManager_init_def no_double_ownership_iff split: if_splits)

text \<open>
  C1. No double ownership. In every table a caller can hold after a sequence of
  \<^verbatim>\<open>release_slot_pages\<close>, \<^verbatim>\<open>reserve_prefill_slot_pages\<close> and \<^verbatim>\<open>reserve_decode_step_pages\<close> calls,
  whether the calls returned or raised, no page index other than the sentinel \<open>0\<close> is in
  the mapping rows of two different slots, provided this holds of the table the sequence
  starts from; it holds of the zeroed table of the constructor
  (\<open>init_no_double_ownership\<close>). The reason is that no call writes a page index into a row:
  a release assigns \<open>0\<close> to the whole row, the assignment of line 118 raises before it
  writes, and a decode step raises at its first line.
\<close>

theorem reachable_no_double_ownership:
  assumes "no_double_ownership T0" "reachable_from pm b T0 T"
  shows "no_double_ownership T"
  using assms(1) reachable_from_rows [OF assms(2)]
  unfolding rows_step_def by (rule rows_cleared_no_double_ownership)

theorem reachable_no_double_ownership_witness:
  "PageManager_init 5 4 2 8 8 = Inr scenario_A \<and>
   reachable_from scenario_A Jnp (page_state scenario_A) (page_state scenario_A) \<and>
   no_double_ownership (page_state scenario_A) \<and>
   no_double_ownership table_three_pages \<and>
   reachable_from scenario_A Numpy table_three_pages table_failed_prefill \<and>
   no_double_ownership table_failed_prefill"
proof -
  have z: "no_double_ownership (page_state scenario_A)"
    using scenario_A_init by (rule init_no_double_ownership)
  have three: "no_double_ownership table_three_pages"
    by (simp add: no_double_ownership_def table_three_pages_def)
  have "reachable_from scenario_A Jnp (page_state scenario_A)
      (table_after (reserve_prefill_slot_pages scenario_A Jnp 0 5 (page_state scenario_A)))"
    by (intro reachable_from.prefill reachable_from.start disjI1 refl)
  then have r: "reachable_from scenario_A Jnp (page_state scenario_A) (page_state scenario_A)"
    by (simp only: prefill_zeroed_Jnp table_after_simps)
  from reachable_no_double_ownership [OF z r]
    reachable_no_double_ownership [OF three table_failed_prefill_reachable]
    scenario_A_init r three table_failed_prefill_reachable
  show ?thesis by simp
qed

subsection \<open>The number of pages follows the length\<close>

lemma counters_kept_refl [simp]: "counters_kept a a"
  by (simp add: counters_kept_def)

lemma counters_kept_trans: "counters_kept a b \<Longrightarrow> counters_kept b c \<Longrightarrow> counters_kept a c"
  by (simp add: counters_kept_def)

lemma counters_and_then:
  assumes "counters_kept st (table_after m)"
    and "\<And>x. m = Returned x \<Longrightarrow> counters_kept x (table_after (g x))"
  shows "counters_kept st (table_after (and_then m g))"
proof (rule table_after_and_then [where R = counters_kept])
  show "\<And>a b c. counters_kept a b \<Longrightarrow> counters_kept b c \<Longrightarrow> counters_kept a c"
    by (rule counters_kept_trans)
qed (use assms in auto)

lemma counters_kept_match:
  "counters_kept a b \<Longrightarrow> num_pages_match_lengths pm a \<Longrightarrow> num_pages_match_lengths pm b"
  by (simp add: counters_kept_def num_pages_match_lengths_def)

lemma release_step_counters: "counters_kept st (table_after (release_step slot i st))"
proof (cases "release_step slot i st")
  case (Returned st')
  then have "counters_kept st st'"
    unfolding release_step_Returned by (auto simp: counters_kept_def)
  with Returned show ?thesis by simp
next
  case (Raised e s)
  then have "s = st \<or> (\<exists>x. s = st\<lparr>page_status := x\<rparr>)"
    by (auto simp: release_step_def split: option.splits)
  with Raised show ?thesis by (auto simp: counters_kept_def)
qed

lemma release_loop_counters: "counters_kept st (table_after (release_loop slot is st))"
proof (induction "is" arbitrary: st)
  case Nil
  show ?case by simp
next
  case (Cons i rest)
  show ?case
    unfolding release_loop.simps
    by (rule counters_and_then [OF release_step_counters Cons.IH])
qed

lemma store_seq_page_indices_counters:
  "counters_kept st (table_after (store_seq_page_indices slot v st))"
  by (auto simp: store_seq_page_indices_def counters_kept_def split: option.splits)

lemma store_seq_page_slice_indices_counters:
  "counters_kept st (table_after (store_seq_page_slice_indices slot v st))"
  by (auto simp: store_seq_page_slice_indices_def counters_kept_def split: option.splits)

lemma store_page_status_counters:
  "counters_kept st (table_after (store_page_status idx v st))"
  by (auto simp: store_page_status_def counters_kept_def split: option.splits)

lemma store_mapping_counters: "counters_kept st (table_after (store_mapping slot i idx st))"
  using store_mapping_Raised [of slot i idx st] by auto

text \<open>
  Writing a length and its page count at the same slot, as lines 85 and 86 and lines 120
  and 121 do, keeps the relation, whichever of the two assignments raises.
\<close>

lemma store_pair_match:
  assumes inv: "num_pages_match_lengths pm st"
    and g: "\<And>x. counters_kept x (table_after (g x))"
  shows "num_pages_match_lengths pm (table_after
           (and_then (store_seq_lengths slot l st) (\<lambda>st.
            and_then (store_seq_num_pages slot (ceil_div l (page_size pm)) st) g)))"
proof (cases "py_index (length (seq_lengths st)) slot")
  case None
  with inv show ?thesis by (simp add: store_seq_lengths_def py_set_def)
next
  case (Some k)
  from inv have len: "length (seq_num_pages st) = length (seq_lengths st)"
    by (simp add: num_pages_match_lengths_def)
  let ?st3 = "st\<lparr>seq_lengths := (seq_lengths st)[k := l],
                   seq_num_pages := (seq_num_pages st)[k := ceil_div l (page_size pm)]\<rparr>"
  from inv have "num_pages_match_lengths pm ?st3"
    by (simp add: num_pages_match_lengths_def map_update)
  with g [of ?st3] have "num_pages_match_lengths pm (table_after (g ?st3))"
    by (rule counters_kept_match)
  with Some len show ?thesis
    by (simp add: store_seq_lengths_def store_seq_num_pages_def py_set_def)
qed

lemma release_slot_pages_match:
  assumes inv: "num_pages_match_lengths pm st"
  shows "num_pages_match_lengths pm (table_after (release_slot_pages slot st))"
proof (cases "py_get (seq_num_pages st) slot")
  case None
  with inv show ?thesis by (simp add: release_slot_pages_def)
next
  case (Some n)
  have loop: "counters_kept st (table_after (release_loop slot [0..<nat n] st))"
    by (rule release_loop_counters)
  show ?thesis
  proof (cases "release_loop slot [0..<nat n] st")
    case (Raised e s)
    with loop inv Some show ?thesis
      by (auto simp: release_slot_pages_def intro: counters_kept_match)
  next
    case (Returned st1)
    with loop inv have inv1: "num_pages_match_lengths pm st1"
      by (auto intro: counters_kept_match)
    have "num_pages_match_lengths pm (table_after
           (and_then (store_seq_lengths slot 0 st1) (\<lambda>st.
            and_then (store_seq_num_pages slot (ceil_div 0 (page_size pm)) st) (\<lambda>st.
            and_then (store_seq_page_indices slot 0 st) (\<lambda>st.
            store_seq_page_slice_indices slot 0 st)))))"
      using inv1
      by (rule store_pair_match)
        (intro counters_and_then store_seq_page_indices_counters
          store_seq_page_slice_indices_counters)
    with Some Returned show ?thesis
      by (simp add: release_slot_pages_def ceil_div_def)
  qed
qed

lemma release_slot_pages_on_match:
  assumes "num_pages_match_lengths pm st"
  shows "num_pages_match_lengths pm (table_after (release_slot_pages_on b slot st))"
proof (cases b)
  case Jnp
  with release_slot_pages_on_Jnp [of slot st] assms show ?thesis by auto
next
  case Numpy
  with release_slot_pages_match [OF assms] show ?thesis by (simp add: release_slot_pages_on_def)
qed

lemma first_pass_counters: "counters_kept st (table_after (first_pass pm slot st))"
proof (cases "pages_available pm st")
  case False
  then show ?thesis by (simp add: first_pass_def prefill_step_def)
next
  case True
  have "counters_kept st (table_after
      (and_then (store_page_status (free_page_idx st) 1 st)
         (\<lambda>st'. store_mapping slot 0 (free_page_idx st) st')))"
    by (intro counters_and_then store_page_status_counters store_mapping_counters)
  moreover have "first_pass pm slot st =
      and_then (store_page_status (free_page_idx st) 1 st)
         (\<lambda>st'. store_mapping slot 0 (free_page_idx st) st')"
  proof (cases "store_page_status (free_page_idx st) 1 st")
    case (Returned st')
    obtain e where "store_mapping slot 0 (free_page_idx st) st' = Raised e st'"
      using store_mapping_Raised by blast
    with Returned True show ?thesis by (simp add: first_pass_def prefill_step_def)
  next
    case (Raised e s)
    with True show ?thesis by (simp add: first_pass_def prefill_step_def)
  qed
  ultimately show ?thesis by simp
qed

lemma reserve_prefill_match:
  assumes inv: "num_pages_match_lengths pm st"
  shows "num_pages_match_lengths pm
           (table_after (reserve_prefill_slot_pages pm b slot true_length st))"
proof (cases "release_slot_pages_on b slot st")
  case (Raised e s)
  with release_slot_pages_on_match [OF inv, of b slot] show ?thesis
    by (simp add: reserve_prefill_slot_pages_def)
next
  case (Returned st1)
  with release_slot_pages_on_match [OF inv, of b slot]
  have inv1: "num_pages_match_lengths pm st1" by simp
  show ?thesis
  proof (cases "page_size pm = 0")
    case True
    with Returned inv1 show ?thesis by (simp add: reserve_prefill_slot_pages_def)
  next
    case ps: False
    show ?thesis
    proof (cases "0 < ceil_div true_length (page_size pm)")
      case True
      from first_pass_counters inv1
      have "num_pages_match_lengths pm (table_after (first_pass pm slot st1))"
        by (rule counters_kept_match)
      with Returned show ?thesis by (simp add: reserve_prefill_needs_page [OF ps True])
    next
      case False
      then have le: "ceil_div true_length (page_size pm) \<le> 0" by simp
      have "num_pages_match_lengths pm (table_after
           (and_then (store_seq_lengths slot true_length st1) (\<lambda>st.
            and_then (store_seq_num_pages slot (ceil_div true_length (page_size pm)) st) (\<lambda>st.
            Raised UnboundLocalError st))))"
        using inv1 by (rule store_pair_match) simp
      with Returned show ?thesis by (simp add: reserve_prefill_needs_no_page [OF ps le])
    qed
  qed
qed

lemma reachable_from_match:
  assumes "num_pages_match_lengths pm T0" "reachable_from pm b T0 T"
  shows "num_pages_match_lengths pm T"
  using assms(2)
proof (induction rule: reachable_from.induct)
  case start
  from assms(1) show ?case .
next
  case (release T slot)
  then show ?case by (intro release_slot_pages_on_match)
next
  case (prefill T true_length slot)
  then show ?case by (intro reserve_prefill_match)
next
  case (decode T)
  then show ?case by (simp add: reserve_decode_step_pages_def)
qed

lemma init_match:
  "PageManager_init n ps s mt mp = Inr pm \<Longrightarrow>
   num_pages_match_lengths pm (page_state pm) \<and> page_size pm \<noteq> 0"
  by (auto simp: PageManager_init_def num_pages_match_lengths_def ceil_div_def split: if_splits)

text \<open>
  C7. In every table a caller can hold after a sequence of calls of the three operations,
  whether the calls returned or raised, \<^verbatim>\<open>seq_num_pages[s]\<close> is the ceiling of
  \<^verbatim>\<open>seq_lengths[s] / page_size\<close> for every slot \<open>s\<close>, and is \<open>0\<close> where the length is \<open>0\<close>,
  provided the relation holds of the table the sequence starts from; it holds of the zeroed
  table of the constructor (\<open>init_match\<close>). The lengths of the prefills on mutable arrays
  are in the range \<open>float32_exact\<close>, where the single-precision ceiling of line 111 is exact
  (the premise of the rule \<open>prefill\<close> of \<open>reachable_from\<close>). The only calls that write the
  two arrays are the release, which writes \<open>0\<close> and \<open>0\<close>, and a prefill that needs no page,
  which writes the length and its ceiling before it stops on the unbound \<^verbatim>\<open>page_idx\<close>.
\<close>

theorem reachable_num_pages_is_ceiling:
  assumes "page_size pm \<noteq> 0" "num_pages_match_lengths pm T0" "reachable_from pm b T0 T"
    "k < nat (slots pm)"
  shows "k < length (seq_num_pages T) \<and> k < length (seq_lengths T) \<and>
         seq_num_pages T ! k = \<lceil>real_of_int (seq_lengths T ! k) / real_of_int (page_size pm)\<rceil> \<and>
         (seq_lengths T ! k = 0 \<longrightarrow> seq_num_pages T ! k = 0)"
proof -
  from assms(2,3) have m: "num_pages_match_lengths pm T" by (rule reachable_from_match)
  from m assms(4) have k: "k < length (seq_lengths T)" "k < length (seq_num_pages T)"
    by (simp_all add: num_pages_match_lengths_def)
  from m k have "seq_num_pages T ! k = ceil_div (seq_lengths T ! k) (page_size pm)"
    by (simp add: num_pages_match_lengths_def)
  with k assms(1) show ?thesis
    by (simp add: ceil_div_ceiling [symmetric]) (simp add: ceil_div_def)
qed

theorem reachable_num_pages_is_ceiling_witness:
  "PageManager_init 1 4 2 8 8 = Inr scenario_one_page \<and>
   reachable_from scenario_one_page Numpy (page_state scenario_one_page) table_negative_length \<and>
   seq_lengths table_negative_length ! 0 = - 5 \<and>
   seq_num_pages table_negative_length ! 0 =
     \<lceil>real_of_int (seq_lengths table_negative_length ! 0) /
        real_of_int (page_size scenario_one_page)\<rceil> \<and>
   num_pages_match_lengths scenario_A table_three_pages \<and>
   reachable_from scenario_A Numpy table_three_pages table_failed_prefill \<and>
   seq_lengths table_failed_prefill ! 1 = 3 \<and>
   seq_num_pages table_failed_prefill ! 1 =
     \<lceil>real_of_int (seq_lengths table_failed_prefill ! 1) / real_of_int (page_size scenario_A)\<rceil>"
proof -
  have m0: "num_pages_match_lengths scenario_one_page (page_state scenario_one_page)"
    and p0: "page_size scenario_one_page \<noteq> 0"
    using init_match [OF scenario_one_page_init] by simp_all
  have k0: "0 < nat (slots scenario_one_page)" by (simp add: scenario_one_page_def)
  have m1: "num_pages_match_lengths scenario_A table_three_pages"
    by (simp add: num_pages_match_lengths_def scenario_A_def table_three_pages_def ceil_div_def)
  have p1: "page_size scenario_A \<noteq> 0" by (simp add: scenario_A_def)
  have k1: "1 < nat (slots scenario_A)" by (simp add: scenario_A_def)
  have a: "seq_num_pages table_negative_length ! 0 =
     \<lceil>real_of_int (seq_lengths table_negative_length ! 0) /
        real_of_int (page_size scenario_one_page)\<rceil>"
    using reachable_num_pages_is_ceiling [OF p0 m0 table_negative_length_reachable k0] by simp
  have b: "seq_num_pages table_failed_prefill ! 1 =
     \<lceil>real_of_int (seq_lengths table_failed_prefill ! 1) / real_of_int (page_size scenario_A)\<rceil>"
    using reachable_num_pages_is_ceiling [OF p1 m1 table_failed_prefill_reachable k1] by simp
  have l0: "seq_lengths table_negative_length ! 0 = - 5"
    by (simp add: table_negative_length_def)
  have l1: "seq_lengths table_failed_prefill ! 1 = 3"
    by (simp add: table_failed_prefill_def)
  from scenario_one_page_init table_negative_length_reachable l0 a m1
    table_failed_prefill_reachable l1 b
  show ?thesis by simp
qed

subsection \<open>Release on mutable arrays\<close>

text \<open>
  C3. Releasing a slot is claimed to free every page of the slot's row. The first pass of
  the loop clears the whole row, so the later passes read the sentinel: of the pages 1 and
  2 of slot 0 only page 1 is freed, and page 2 stays marked with no slot holding it.
\<close>

theorem release_leaves_second_page_used:
  "release_slot_pages 0 table_two_pages =
     Returned \<lparr>
       page_status = [0, 0, 1, 0, 0],
       seq_page_idx_mappings = [[0, 0], [0, 0]],
       seq_lengths = [0, 0],
       seq_num_pages = [0, 0],
       seq_page_indices = [0, 0],
       seq_page_slice_indices = [0, 0] \<rparr>"
  by code_simp

text \<open>
  C10. Releasing a slot is claimed to leave the status of every page outside the slot's
  row as it was. After the first pass the loop reads the sentinel from the cleared row and
  resets the status of page 0, which is not in the row.
\<close>

theorem release_resets_page_outside_row:
  "0 \<notin> set (seq_page_idx_mappings table_two_pages_sentinel_set ! 0) \<and>
   page_status table_two_pages_sentinel_set ! 0 = 1 \<and>
   release_slot_pages 0 table_two_pages_sentinel_set =
     Returned \<lparr>
       page_status = [0, 0, 1, 0, 0],
       seq_page_idx_mappings = [[0, 0], [0, 0]],
       seq_lengths = [0, 0],
       seq_num_pages = [0, 0],
       seq_page_indices = [0, 0],
       seq_page_slice_indices = [0, 0] \<rparr>"
proof -
  have "release_slot_pages 0 table_two_pages_sentinel_set =
     Returned \<lparr>
       page_status = [0, 0, 1, 0, 0],
       seq_page_idx_mappings = [[0, 0], [0, 0]],
       seq_lengths = [0, 0],
       seq_num_pages = [0, 0],
       seq_page_indices = [0, 0],
       seq_page_slice_indices = [0, 0] \<rparr>"
    by code_simp
  then show ?thesis by (simp add: table_two_pages_sentinel_set_def)
qed

subsection \<open>What a prefill does to the zeroed table\<close>

text \<open>
  C2 (scenario A of the specification). With 5 pages of size 4, 2 slots and the zeroed
  table, the prefill of slot 0 with 5 tokens is claimed to mark the pages 1 and 2, to record
  them in the row of slot 0 and to set \<^verbatim>\<open>seq_num_pages[0] = 2\<close>. The call returns no table.
  On the table of the constructor, whose arrays are JAX arrays, it raises \<^verbatim>\<open>TypeError\<close> in
  the release of the slot (line 85) and changes nothing. On mutable arrays of the same
  content it reaches the allocation loop, takes the position \<open>0\<close> of the first free entry of
  \<^verbatim>\<open>page_status[1:]\<close> as the page index, sets \<^verbatim>\<open>page_status[0]\<close>, and raises \<^verbatim>\<open>TypeError\<close>
  at line 118: the pages 1 and 2 stay free, the row of slot 0 stays \<open>[0, 0]\<close> and
  \<^verbatim>\<open>seq_num_pages[0]\<close> stays \<open>0\<close>.
\<close>

theorem prefill_scenario_A_raises:
  "PageManager_init 5 4 2 8 8 = Inr scenario_A \<and>
   reserve_prefill_slot_pages scenario_A Jnp 0 5 (page_state scenario_A) =
     Raised TypeError (page_state scenario_A) \<and>
   reserve_prefill_slot_pages scenario_A Numpy 0 5 (page_state scenario_A) =
     Raised TypeError table_sentinel_marked \<and>
   page_status table_sentinel_marked = [1, 0, 0, 0, 0] \<and>
   seq_page_idx_mappings table_sentinel_marked ! 0 = [0, 0] \<and>
   seq_num_pages table_sentinel_marked ! 0 = 0"
proof -
  have "reserve_prefill_slot_pages scenario_A Numpy 0 5 (page_state scenario_A) =
     Raised TypeError table_sentinel_marked"
    by code_simp
  with scenario_A_init prefill_zeroed_Jnp show ?thesis
    by (simp add: table_sentinel_marked_def)
qed

text \<open>
  C5. The status of the sentinel page is claimed never to be set in a table reached from
  the zeroed table. On mutable arrays holding the zeroed table, a prefill of slot 1 with one
  token sets \<^verbatim>\<open>page_status[0]\<close> at line 117, in the caller's array, before it raises at line
  118: the table the caller holds after the call has the sentinel marked used. (On the JAX
  arrays of the constructor the same call raises in the release and writes nothing.)
\<close>

theorem prefill_marks_sentinel_used:
  "reserve_prefill_slot_pages scenario_A Numpy 1 1 (page_state scenario_A) =
     Raised TypeError table_sentinel_marked \<and>
   reachable_from scenario_A Numpy (page_state scenario_A) table_sentinel_marked \<and>
   page_status (page_state scenario_A) ! 0 = 0 \<and>
   page_status table_sentinel_marked ! 0 = 1 \<and>
   reserve_prefill_slot_pages scenario_A Jnp 1 1 (page_state scenario_A) =
     Raised TypeError (page_state scenario_A)"
proof -
  have p: "reserve_prefill_slot_pages scenario_A Numpy 1 1 (page_state scenario_A) =
     Raised TypeError table_sentinel_marked"
    by code_simp
  have j: "reserve_prefill_slot_pages scenario_A Jnp 1 1 (page_state scenario_A) =
     Raised TypeError (page_state scenario_A)"
    by code_simp
  have "float32_exact 1 (page_size scenario_A)"
    by (simp add: float32_exact_def scenario_A_def)
  then have "reachable_from scenario_A Numpy (page_state scenario_A)
      (table_after (reserve_prefill_slot_pages scenario_A Numpy 1 1 (page_state scenario_A)))"
    by (intro reachable_from.prefill reachable_from.start disjI2)
  then have "reachable_from scenario_A Numpy (page_state scenario_A) table_sentinel_marked"
    by (simp only: p table_after_simps)
  with p j show ?thesis by (simp add: table_sentinel_marked_def scenario_A_def)
qed

text \<open>
  C9. Round trip. A release after a prefill is claimed to leave free every page that was
  free before the prefill. No prefill returns a table to release (first conjunct). On
  mutable arrays the prefill of slot 0 with 4 tokens leaves the caller's zeroed table with
  \<^verbatim>\<open>page_status[0]\<close> set, and the release of slot 0 that follows frees nothing, since
  \<^verbatim>\<open>seq_num_pages[0]\<close> was never written: page 0, free before the prefill, is still marked
  after the release.
\<close>

theorem release_after_prefill_keeps_sentinel_marked:
  "reserve_prefill_slot_pages pm b slot true_length T \<noteq> Returned T' \<and>
   page_status (page_state scenario_A) ! 0 = 0 \<and>
   reserve_prefill_slot_pages scenario_A Numpy 0 4 (page_state scenario_A) =
     Raised TypeError table_sentinel_marked \<and>
   release_slot_pages 0 table_sentinel_marked = Returned table_sentinel_marked \<and>
   page_status table_sentinel_marked ! 0 = 1"
proof -
  have p: "reserve_prefill_slot_pages scenario_A Numpy 0 4 (page_state scenario_A) =
     Raised TypeError table_sentinel_marked"
    by code_simp
  have r: "release_slot_pages 0 table_sentinel_marked = Returned table_sentinel_marked"
    by code_simp
  from p r reserve_prefill_never_returns [of pm b slot true_length T T'] show ?thesis
    by (simp add: table_sentinel_marked_def scenario_A_def)
qed

subsection \<open>The decode step\<close>

text \<open>
  C6. A decode step is claimed to add 1 to the length of every active slot and to give a
  slot that crosses a page boundary the lowest free page above the sentinel. Slot 0 holds 4
  tokens on page 1, so its next token needs a second page. The call raises \<^verbatim>\<open>TypeError\<close> at
  line 144, its first statement, as it does on every table: no length is incremented and no
  page is allocated.
\<close>

theorem decode_step_raises:
  "seq_lengths table_one_full_page = [4, 0] \<and>
   reserve_decode_step_pages scenario_A table_one_full_page =
     Raised TypeError table_one_full_page"
  by (simp add: reserve_decode_step_pages_def table_one_full_page_def)

subsection \<open>Pool exhaustion\<close>

lemma release_slot_pages_on_Numpy [simp]:
  "release_slot_pages_on Numpy slot st = release_slot_pages slot st"
  by (simp add: release_slot_pages_on_def)






subsection \<open>Requests that the specification calls invalid\<close>












end
